theory Spec2Isabelle
  imports Complex_Main "HOL-Library.AList"
begin

section \<open>Python values, exceptions and dictionaries\<close>

text \<open>
  The script \<^verbatim>\<open>universal_train.py\<close> has two functions,
  \<^verbatim>\<open>detect_compute_environment\<close> and \<^verbatim>\<open>train_model\<close>. Both only call
  libraries (\<^verbatim>\<open>platform\<close>, \<^verbatim>\<open>tensorflow\<close>, \<^verbatim>\<open>torch\<close>, \<^verbatim>\<open>mlflow\<close>,
  \<^verbatim>\<open>sklearn\<close>), so the embedding takes what those libraries answer as a parameter,
  the \<open>world\<close>, and models what the script itself does with the answers: the order of
  the calls, the arguments it passes, the exceptions it catches and the ones it lets
  through, and the value it returns.

  An exception is a value. The script names one exception class only,
  \<^verbatim>\<open>ImportError\<close>; Python's \<^verbatim>\<open>except ImportError\<close> also catches its subclass
  \<^verbatim>\<open>ModuleNotFoundError\<close>, which is what importing a module that is not installed
  raises. \<open>OtherError c\<close> stands for an exception of a class \<open>c\<close> outside that
  hierarchy.
\<close>

datatype py_exception =
    ImportError
  | ModuleNotFoundError
  | KeyError string
  | OtherError string

fun isinstance_ImportError :: "py_exception \<Rightarrow> bool" where
  "isinstance_ImportError ImportError = True"
| "isinstance_ImportError ModuleNotFoundError = True"
| "isinstance_ImportError (KeyError k) = False"
| "isinstance_ImportError (OtherError c) = False"

text \<open>The values stored in \<^verbatim>\<open>env_info\<close>: strings, booleans and \<^verbatim>\<open>None\<close>.\<close>

datatype py_value = PyStr string | PyBool bool | PyNone

fun py_str :: "py_value \<Rightarrow> string" where
  "py_str (PyStr s) = s"
| "py_str (PyBool b) = (if b then ''True'' else ''False'')"
| "py_str PyNone = ''None''"

text \<open>
  \<^verbatim>\<open>env_info\<close> is a Python dict. A dict keeps its keys in insertion order and an
  assignment to an existing key keeps the key's place, which is what \<open>AList.update\<close>
  does on an association list. Reading a key that is absent raises \<^verbatim>\<open>KeyError\<close>.
\<close>

type_synonym env_info = "(string \<times> py_value) list"

definition dict_setitem :: "env_info \<Rightarrow> string \<Rightarrow> py_value \<Rightarrow> env_info" where
  "dict_setitem d k v = AList.update k v d"

definition dict_getitem :: "env_info \<Rightarrow> string \<Rightarrow> py_exception + py_value" where
  "dict_getitem d k = (case map_of d k of None \<Rightarrow> Inl (KeyError k) | Some v \<Rightarrow> Inr v)"

definition dict_keys :: "env_info \<Rightarrow> string list" where
  "dict_keys d = map fst d"

section \<open>Effects\<close>

text \<open>
  What a run does to the outside is recorded as a trace of effects, in the order of
  the source: the modules it imports, the library queries of the GPU probe, the lines it
  prints and the calls to the tracking service. The type parameter \<open>'m\<close> is the fitted
  model object, which is passed to \<^verbatim>\<open>mlflow.sklearn.log_model\<close>.

  Printed lines are given without the pictograph that starts them in the source.
\<close>

datatype 'm tracking_call =
    SetTrackingUri string
  | SetExperiment string
  | StartRun
  | LogParams env_info
  | LogMetric string real
  | LogModel 'm string string
  | EndRun string

datatype 'm effect =
    Import string
  | Query string
  | Print string
  | Tracking "'m tracking_call"

text \<open>
  A computation yields the trace it has produced and either the exception it raised
  (\<open>Inl\<close>) or its value (\<open>Inr\<close>). The trace is kept when an exception is raised: the
  effects before the \<^verbatim>\<open>raise\<close> have happened.
\<close>

type_synonym ('m, 'a) io = "'m effect list \<times> (py_exception + 'a)"

definition ret :: "'a \<Rightarrow> ('m, 'a) io" where
  "ret a = ([], Inr a)"

definition lift :: "py_exception + 'a \<Rightarrow> ('m, 'a) io" where
  "lift r = ([], r)"

definition bind :: "('m, 'a) io \<Rightarrow> ('a \<Rightarrow> ('m, 'b) io) \<Rightarrow> ('m, 'b) io" where
  "bind m f =
     (case m of
        (t, Inl e) \<Rightarrow> (t, Inl e)
      | (t, Inr a) \<Rightarrow> (case f a of (t', r) \<Rightarrow> (t @ t', r)))"

definition print :: "string \<Rightarrow> ('m, unit) io" where
  "print s = ([Print s], Inr ())"

text \<open>
  \<^verbatim>\<open>try: body except ImportError: handler\<close>. The handler runs when the body raised an
  instance of \<^verbatim>\<open>ImportError\<close>; any other exception leaves the statement, and so does
  an exception raised by the handler itself.
\<close>

definition try_except_ImportError :: "('m, 'a) io \<Rightarrow> ('m, 'a) io \<Rightarrow> ('m, 'a) io" where
  "try_except_ImportError body handler =
     (case body of
        (t, Inr a) \<Rightarrow> (t, Inr a)
      | (t, Inl e) \<Rightarrow>
          (if isinstance_ImportError e
           then (case handler of (t', r) \<Rightarrow> (t @ t', r))
           else (t, Inl e)))"

section \<open>The world\<close>

text \<open>
  The arguments of \<^verbatim>\<open>make_classification\<close> and of the
  \<^verbatim>\<open>RandomForestClassifier\<close> constructor, as the script writes them; every other
  argument of the two has the library's default.
\<close>

record mc_args =
  n_samples :: nat
  n_features :: nat
  n_informative :: nat
  n_redundant :: nat
  n_classes :: nat

record rf_args =
  n_estimators :: nat
  max_depth :: nat

type_synonym row = "real list"
type_synonym label = nat

text \<open>
  The scikit-learn functions the script calls. Each is a function of its arguments and
  may raise. A function that draws random numbers takes the seed of its generator as a
  natural number: scikit-learn builds a fresh generator from an integer
  \<^verbatim>\<open>random_state\<close>, and uses the process-wide numpy generator when
  \<^verbatim>\<open>random_state\<close> is \<^verbatim>\<open>None\<close> (see \<open>check_random_state\<close> below).
\<close>

record 'm sklearn =
  make_classification :: "mc_args \<Rightarrow> nat \<Rightarrow> py_exception + (row list \<times> label list)"
  train_test_split ::
    "row list \<Rightarrow> label list \<Rightarrow> real \<Rightarrow> nat \<Rightarrow> label list option \<Rightarrow>
       py_exception + (row list \<times> row list \<times> label list \<times> label list)"
  fit :: "rf_args \<Rightarrow> nat \<Rightarrow> row list \<Rightarrow> label list \<Rightarrow> py_exception + 'm"
  predict :: "'m \<Rightarrow> row list \<Rightarrow> py_exception + label list"
  accuracy_score :: "label list \<Rightarrow> label list \<Rightarrow> py_exception + real"
  classification_report :: "label list \<Rightarrow> label list \<Rightarrow> py_exception + string"

text \<open>
  Everything outside the script that a run reads:
  \<^item> the three strings of the \<^verbatim>\<open>platform\<close> module;
  \<^item> what \<^verbatim>\<open>import m\<close> does for a module name \<open>m\<close> (\<open>None\<close>: the module
    loads; \<open>Some e\<close>: the statement raises \<open>e\<close>);
  \<^item> what \<^verbatim>\<open>tf.config.list_physical_devices('GPU')\<close> and
    \<^verbatim>\<open>torch.cuda.is_available()\<close> answer, or the exception they raise;
  \<^item> the process environment read by \<^verbatim>\<open>os.getenv\<close>;
  \<^item> what each call to the tracking service does (\<open>None\<close>: it returns);
  \<^item> the state of the process-wide numpy generator, which differs from run to run;
  \<^item> the scikit-learn functions, and Python's \<^verbatim>\<open>.4f\<close> formatting of a float.
\<close>

record 'm world =
  platform_system :: string
  platform_machine :: string
  platform_python_version :: string
  import_outcome :: "string \<Rightarrow> py_exception option"
  tf_list_physical_devices :: "py_exception + string list"
  torch_cuda_is_available :: "py_exception + bool"
  environ :: "string \<Rightarrow> string option"
  tracking :: "'m tracking_call \<Rightarrow> py_exception option"
  np_global_rng :: nat
  sk :: "'m sklearn"
  format_4f :: "real \<Rightarrow> string"

definition import_module :: "'m world \<Rightarrow> string \<Rightarrow> ('m, unit) io" where
  "import_module w m =
     ([Import m], case import_outcome w m of None \<Rightarrow> Inr () | Some e \<Rightarrow> Inl e)"

definition query :: "string \<Rightarrow> py_exception + 'a \<Rightarrow> ('m, 'a) io" where
  "query name r = ([Query name], r)"

definition call_tracking :: "'m world \<Rightarrow> 'm tracking_call \<Rightarrow> ('m, unit) io" where
  "call_tracking w c =
     ([Tracking c], case tracking w c of None \<Rightarrow> Inr () | Some e \<Rightarrow> Inl e)"

definition os_getenv :: "'m world \<Rightarrow> string \<Rightarrow> string \<Rightarrow> string" where
  "os_getenv w k dflt = (case environ w k of None \<Rightarrow> dflt | Some v \<Rightarrow> v)"

definition check_random_state :: "'m world \<Rightarrow> nat option \<Rightarrow> nat" where
  "check_random_state w random_state =
     (case random_state of None \<Rightarrow> np_global_rng w | Some seed \<Rightarrow> seed)"

section \<open>detect_compute_environment\<close>

text \<open>Lines 21 to 27: the dictionary before the probe.\<close>

definition initial_env_info :: "'m world \<Rightarrow> env_info" where
  "initial_env_info w =
     [(''platform'', PyStr (platform_system w)),
      (''architecture'', PyStr (platform_machine w)),
      (''python_version'', PyStr (platform_python_version w)),
      (''gpu_available'', PyBool False),
      (''gpu_type'', PyNone)]"

text \<open>
  Lines 31 to 37, the body of the outer \<^verbatim>\<open>try\<close>, and lines 40 to 46, the body of
  the inner one. Each body assigns to the dictionary only after its last call that can
  raise, so a handler finds the dictionary as it was before the body.
\<close>

definition tensorflow_probe :: "'m world \<Rightarrow> env_info \<Rightarrow> ('m, env_info) io" where
  "tensorflow_probe w env =
     bind (import_module w ''tensorflow'') (\<lambda>_.
     bind (query ''tf.config.list_physical_devices'' (tf_list_physical_devices w)) (\<lambda>devices.
       if devices \<noteq> []
       then bind (print ''TensorFlow GPU detected'') (\<lambda>_.
              ret (dict_setitem (dict_setitem env ''gpu_available'' (PyBool True))
                     ''gpu_type'' (PyStr ''CUDA'')))
       else bind (print ''TensorFlow using CPU'') (\<lambda>_. ret env)))"

definition torch_probe :: "'m world \<Rightarrow> env_info \<Rightarrow> ('m, env_info) io" where
  "torch_probe w env =
     bind (import_module w ''torch'') (\<lambda>_.
     bind (query ''torch.cuda.is_available'' (torch_cuda_is_available w)) (\<lambda>available.
       if available
       then bind (print ''PyTorch CUDA detected'') (\<lambda>_.
              ret (dict_setitem (dict_setitem env ''gpu_available'' (PyBool True))
                     ''gpu_type'' (PyStr ''CUDA'')))
       else bind (print ''PyTorch using CPU'') (\<lambda>_. ret env)))"

definition detect_compute_environment :: "'m world \<Rightarrow> ('m, env_info) io" where
  "detect_compute_environment w =
     (let env_info = initial_env_info w in
      try_except_ImportError (tensorflow_probe w env_info)
        (try_except_ImportError (torch_probe w env_info)
           (bind (print ''No GPU ML libraries detected'') (\<lambda>_. ret env_info))))"

section \<open>train_model\<close>

text \<open>
  \<^verbatim>\<open>with mlflow.start_run(): body\<close>. When \<^verbatim>\<open>start_run\<close> raises, the body does
  not run. Otherwise the run object's \<^verbatim>\<open>__exit__\<close> is called when the body is left:
  it ends the run, with status \<^verbatim>\<open>FINISHED\<close> after a body that completed and
  \<^verbatim>\<open>FAILED\<close> after one that raised, and it does not suppress the body's exception.
  An exception raised while ending the run replaces the outcome of the body.
\<close>

definition with_start_run :: "'m world \<Rightarrow> ('m, 'a) io \<Rightarrow> ('m, 'a) io" where
  "with_start_run w body =
     bind (call_tracking w StartRun) (\<lambda>_.
       case body of
         (t, Inr a) \<Rightarrow>
           bind (t, Inr ()) (\<lambda>_.
           bind (call_tracking w (EndRun ''FINISHED'')) (\<lambda>_. ret a))
       | (t, Inl e) \<Rightarrow>
           bind (t, Inr ()) (\<lambda>_.
           bind (call_tracking w (EndRun ''FAILED'')) (\<lambda>_. lift (Inl e))))"

text \<open>
  The local variables that lines 71 to 96 bind: the dataset, the four parts of the
  split, the fitted model, its predictions on the test part and their accuracy.
\<close>

record 'm locals =
  X :: "row list"
  y :: "label list"
  X_train :: "row list"
  X_test :: "row list"
  y_train :: "label list"
  y_test :: "label list"
  model :: 'm
  y_pred :: "label list"
  accuracy :: real

text \<open>
  Lines 70 to 96: generate the dataset, split it, fit the classifier, predict and
  score. Each of the three randomised calls is given \<^verbatim>\<open>random_state=42\<close>;
  \<^verbatim>\<open>test_size=0.2\<close> is the fraction \<open>1/5\<close>, and \<^verbatim>\<open>stratify=y\<close> passes the
  labels.
\<close>

definition fit_and_evaluate :: "'m world \<Rightarrow> ('m, 'm locals) io" where
  "fit_and_evaluate w =
     bind (print ''Generating sample dataset...'') (\<lambda>_.
     bind (lift (make_classification (sk w)
                   \<lparr>n_samples = 1000, n_features = 10, n_informative = 5,
                    n_redundant = 2, n_classes = 2\<rparr>
                   (check_random_state w (Some 42)))) (\<lambda>(X0, y0).
     bind (lift (train_test_split (sk w) X0 y0 (1 / 5)
                   (check_random_state w (Some 42)) (Some y0)))
       (\<lambda>(X_train0, X_test0, y_train0, y_test0).
     bind (print ''Training model...'') (\<lambda>_.
     bind (lift (fit (sk w) \<lparr>n_estimators = 100, max_depth = 10\<rparr>
                   (check_random_state w (Some 42)) X_train0 y_train0)) (\<lambda>model0.
     bind (lift (predict (sk w) model0 X_test0)) (\<lambda>y_pred0.
     bind (lift (accuracy_score (sk w) y_test0 y_pred0)) (\<lambda>accuracy0.
     ret \<lparr>X = X0, y = y0, X_train = X_train0, X_test = X_test0,
          y_train = y_train0, y_test = y_test0, model = model0,
          y_pred = y_pred0, accuracy = accuracy0\<rparr>)))))))"

text \<open>Lines 66 to 115, the body of the \<^verbatim>\<open>with\<close> statement.\<close>

definition run_body :: "'m world \<Rightarrow> env_info \<Rightarrow> ('m, real) io" where
  "run_body w env =
     bind (call_tracking w (LogParams env)) (\<lambda>_.
     bind (fit_and_evaluate w) (\<lambda>l.
     bind (call_tracking w (LogMetric ''accuracy'' (accuracy l))) (\<lambda>_.
     bind (call_tracking w (LogMetric ''train_samples'' (real (length (X_train l))))) (\<lambda>_.
     bind (call_tracking w (LogMetric ''test_samples'' (real (length (X_test l))))) (\<lambda>_.
     bind (call_tracking w
             (LogModel (model l) ''random_forest_model'' ''universal-ml-model'')) (\<lambda>_.
     bind (print ''Model trained successfully!'') (\<lambda>_.
     bind (print (''Accuracy: '' @ format_4f w (accuracy l))) (\<lambda>_.
     bind (print ''Classification Report:'') (\<lambda>_.
     bind (lift (classification_report (sk w) (y_test l) (y_pred l))) (\<lambda>report.
     bind (print report) (\<lambda>_.
     ret (accuracy l))))))))))))"

text \<open>
  Lines 57 to 115: what \<^verbatim>\<open>train_model\<close> does once
  \<^verbatim>\<open>detect_compute_environment\<close> has returned \<open>env\<close>.
\<close>

definition train_model_from :: "'m world \<Rightarrow> env_info \<Rightarrow> ('m, real) io" where
  "train_model_from w env =
     bind (lift (dict_getitem env ''platform'')) (\<lambda>p.
     bind (lift (dict_getitem env ''architecture'')) (\<lambda>a.
     bind (print (''Platform: '' @ py_str p @ '' '' @ py_str a)) (\<lambda>_.
     bind (lift (dict_getitem env ''python_version'')) (\<lambda>v.
     bind (print (''Python: '' @ py_str v)) (\<lambda>_.
     bind (lift (dict_getitem env ''gpu_available'')) (\<lambda>g.
     bind (print (''GPU Available: '' @ py_str g)) (\<lambda>_.
     bind (call_tracking w
             (SetTrackingUri
                (os_getenv w ''MLFLOW_TRACKING_URI'' ''http://localhost:5000''))) (\<lambda>_.
     bind (call_tracking w (SetExperiment ''universal-ml-experiment'')) (\<lambda>_.
     with_start_run w (run_body w env))))))))))"

definition train_model :: "'m world \<Rightarrow> ('m, real) io" where
  "train_model w = bind (detect_compute_environment w) (train_model_from w)"

section \<open>Reading a trace\<close>

fun tracking_calls :: "'m effect list \<Rightarrow> 'm tracking_call list" where
  "tracking_calls [] = []"
| "tracking_calls (Tracking c # t) = c # tracking_calls t"
| "tracking_calls (_ # t) = tracking_calls t"

fun logged_params :: "'m effect list \<Rightarrow> env_info list" where
  "logged_params [] = []"
| "logged_params (Tracking (LogParams d) # t) = d # logged_params t"
| "logged_params (_ # t) = logged_params t"

fun logged_metric :: "string \<Rightarrow> 'm effect list \<Rightarrow> real list" where
  "logged_metric k [] = []"
| "logged_metric k (Tracking (LogMetric k' v) # t) =
     (if k' = k then v # logged_metric k t else logged_metric k t)"
| "logged_metric k (_ # t) = logged_metric k t"

fun logged_models :: "'m effect list \<Rightarrow> 'm list" where
  "logged_models [] = []"
| "logged_models (Tracking (LogModel m name registered) # t) = m # logged_models t"
| "logged_models (_ # t) = logged_models t"

text \<open>
  The exceptions of the tracking calls of a trace that fail in the world \<open>w\<close>, in the
  order of the calls.
\<close>

fun tracking_failures :: "'m world \<Rightarrow> 'm effect list \<Rightarrow> py_exception list" where
  "tracking_failures w [] = []"
| "tracking_failures w (Tracking c # t) =
     (case tracking w c of
        None \<Rightarrow> tracking_failures w t
      | Some e \<Rightarrow> e # tracking_failures w t)"
| "tracking_failures w (_ # t) = tracking_failures w t"

text \<open>
  A failure of the tracking service propagates out of a computation: when some
  tracking call of its trace has failed, the computation has raised, and the exception
  is that of the last tracking call that failed.
\<close>

definition tracking_failure_propagates :: "'m world \<Rightarrow> ('m, 'a) io \<Rightarrow> bool" where
  "tracking_failure_propagates w m \<longleftrightarrow>
     (tracking_failures w (fst m) \<noteq> [] \<longrightarrow>
      snd m = Inl (last (tracking_failures w (fst m))))"

section \<open>What the probe can raise\<close>




section \<open>The contract of the scikit-learn functions\<close>

text \<open>
  Modelled from the spec: the scikit-learn functions \<^verbatim>\<open>make_classification\<close>,
  \<^verbatim>\<open>train_test_split\<close>, \<^verbatim>\<open>RandomForestClassifier.predict\<close> and
  \<^verbatim>\<open>accuracy_score\<close> are library code, not part of the repository's sources. What
  the claims about sample counts and about the range of the accuracy need from them
  is stated here as a contract on the \<open>sk\<close> field of the world:
  \<^item> the data generator "synthesizes a fixed number of samples": when it returns,
    there are \<open>n_samples\<close> rows and as many labels;
  \<^item> the split partitions the rows "by a fixed ratio": with a fractional test size
    \<open>r\<close> the test part has \<open>\<lceil>r * n\<rceil>\<close> of the \<open>n\<close> rows and the training part
    the remaining ones, and the labels are split alike;
  \<^item> the classifier predicts one label for each row it is given;
  \<^item> the accuracy of predictions on a non-empty test part is the number of rows
    whose predicted label is the true one, divided by the number of rows; labels and
    predictions of different lengths are refused.
\<close>

definition count_correct :: "label list \<Rightarrow> label list \<Rightarrow> nat" where
  "count_correct y_true y_predicted =
     length (filter (\<lambda>(a, b). a = b) (zip y_true y_predicted))"

definition sklearn_contract :: "'m sklearn \<Rightarrow> bool" where
  "sklearn_contract lib \<longleftrightarrow>
     (\<forall>a seed X0 y0. make_classification lib a seed = Inr (X0, y0) \<longrightarrow>
        length X0 = n_samples a \<and> length y0 = n_samples a) \<and>
     (\<forall>X0 y0 r seed strat Xtr Xte ytr yte.
        train_test_split lib X0 y0 r seed strat = Inr (Xtr, Xte, ytr, yte) \<longrightarrow>
        length Xte = nat \<lceil>r * real (length X0)\<rceil> \<and>
        length Xtr = length X0 - length Xte \<and>
        length ytr = length Xtr \<and> length yte = length Xte) \<and>
     (\<forall>m0 X0 p. predict lib m0 X0 = Inr p \<longrightarrow> length p = length X0) \<and>
     (\<forall>yt yp a. accuracy_score lib yt yp = Inr a \<longrightarrow>
        length yt = length yp \<and>
        (yt \<noteq> [] \<longrightarrow> a = real (count_correct yt yp) / real (length yt)))"

section \<open>Concrete worlds\<close>

text \<open>
  A small library that meets the contract: all rows are empty and carry the label 0,
  the split cuts the list at the test size, the fitted model is the label it always
  predicts.
\<close>

definition constant_sklearn :: "nat sklearn" where
  "constant_sklearn =
     \<lparr>make_classification =
        (\<lambda>a seed. Inr (replicate (n_samples a) [], replicate (n_samples a) 0)),
      train_test_split =
        (\<lambda>X0 y0 r seed strat.
           if 0 < r \<and> r < 1 \<and> length X0 = length y0
           then (let k = nat \<lceil>r * real (length X0)\<rceil>
                 in Inr (drop k X0, take k X0, drop k y0, take k y0))
           else Inl (OtherError ''ValueError'')),
      fit = (\<lambda>a seed X0 y0. Inr 0),
      predict = (\<lambda>m0 X0. Inr (replicate (length X0) m0)),
      accuracy_score =
        (\<lambda>yt yp.
           if length yt = length yp
           then Inr (real (count_correct yt yp) / real (length yt))
           else Inl (OtherError ''ValueError'')),
      classification_report = (\<lambda>yt yp. Inr ''precision recall f1-score support'')\<rparr>"

text \<open>A host with neither tensorflow nor torch installed, and a tracking service that answers.\<close>

definition cpu_host :: "nat world" where
  "cpu_host =
     \<lparr>platform_system = ''Linux'',
      platform_machine = ''x86_64'',
      platform_python_version = ''3.11.4'',
      import_outcome = (\<lambda>m. Some ModuleNotFoundError),
      tf_list_physical_devices = Inr [],
      torch_cuda_is_available = Inr False,
      environ = (\<lambda>k. None),
      tracking = (\<lambda>c. None),
      np_global_rng = 7,
      sk = constant_sklearn,
      format_4f = (\<lambda>a. ''1.0000'')\<rparr>"

text \<open>The same installation on another machine, in a process with another generator state.\<close>

definition mac_host :: "nat world" where
  "mac_host = cpu_host\<lparr>platform_system := ''Darwin'', platform_machine := ''arm64'',
                         np_global_rng := 99\<rparr>"

text \<open>A host with torch and a CUDA device, and the tracking URI set in the environment.\<close>

definition cuda_host :: "nat world" where
  "cuda_host =
     cpu_host\<lparr>import_outcome :=
                 (\<lambda>m. if m = ''torch'' then None else Some ModuleNotFoundError),
               torch_cuda_is_available := Inr True,
               environ := (\<lambda>k. if k = ''MLFLOW_TRACKING_URI''
                                then Some ''http://mlflow:5000'' else None)\<rparr>"


text \<open>
  A host on which both modules load, the tensorflow device query raises
  \<^verbatim>\<open>ImportError\<close> and the torch query raises \<^verbatim>\<open>RuntimeError\<close>.
\<close>

definition late_import_error_host :: "nat world" where
  "late_import_error_host =
     cpu_host\<lparr>import_outcome := (\<lambda>m. None),
               tf_list_physical_devices := Inl ImportError,
               torch_cuda_is_available := Inl (OtherError ''RuntimeError'')\<rparr>"

text \<open>A host whose tracking service refuses every call.\<close>

definition unreachable_tracking_host :: "nat world" where
  "unreachable_tracking_host =
     cpu_host\<lparr>tracking := (\<lambda>c. Some (OtherError ''ConnectionError''))\<rparr>"

section \<open>Basic facts about computations\<close>

lemma bind_Inl [simp]: "bind (t, Inl e) f = (t, Inl e)"
  by (simp add: bind_def)

lemma bind_Inr [simp]: "bind (t, Inr a) f = (t @ fst (f a), snd (f a))"
  by (simp add: bind_def split: prod.splits)

lemma bind_Inr_iff:
  "bind m f = (t, Inr b) \<longleftrightarrow>
     (\<exists>t1 a t2. m = (t1, Inr a) \<and> f a = (t2, Inr b) \<and> t = t1 @ t2)"
  by (cases m) (auto simp: bind_def split: sum.splits prod.splits)

lemma call_tracking_Inr_iff:
  "call_tracking w c = (t, Inr u) \<longleftrightarrow> tracking w c = None \<and> t = [Tracking c]"
  by (auto simp: call_tracking_def split: option.splits)

lemma print_Inr_iff: "print s = (t, Inr u) \<longleftrightarrow> t = [Print s]"
  by (auto simp: print_def)

lemma lift_Inr_iff: "lift r = (t, Inr a) \<longleftrightarrow> r = Inr a \<and> t = []"
  by (auto simp: lift_def)

lemma ret_Inr_iff: "ret a = (t, Inr b) \<longleftrightarrow> a = b \<and> t = []"
  by (auto simp: ret_def)

lemmas io_Inr_iff =
  bind_Inr_iff call_tracking_Inr_iff print_Inr_iff lift_Inr_iff ret_Inr_iff

section \<open>The environment probe\<close>

lemmas probe_defs =
  detect_compute_environment_def tensorflow_probe_def torch_probe_def
  try_except_ImportError_def import_module_def query_def print_def ret_def
  initial_env_info_def dict_setitem_def dict_getitem_def dict_keys_def bind_def Let_def

text \<open>The probe on the concrete hosts, step by step.\<close>

lemma detect_cpu_host:
  "detect_compute_environment cpu_host =
     ([Import ''tensorflow'', Import ''torch'', Print ''No GPU ML libraries detected''],
      Inr [(''platform'', PyStr ''Linux''), (''architecture'', PyStr ''x86_64''),
           (''python_version'', PyStr ''3.11.4''), (''gpu_available'', PyBool False),
           (''gpu_type'', PyNone)])"
  by (simp add: probe_defs cpu_host_def)

lemma detect_cuda_host:
  "detect_compute_environment cuda_host =
     ([Import ''tensorflow'', Import ''torch'', Query ''torch.cuda.is_available'',
       Print ''PyTorch CUDA detected''],
      Inr [(''platform'', PyStr ''Linux''), (''architecture'', PyStr ''x86_64''),
           (''python_version'', PyStr ''3.11.4''), (''gpu_available'', PyBool True),
           (''gpu_type'', PyStr ''CUDA'')])"
  by (simp add: probe_defs cuda_host_def cpu_host_def)


lemma detect_late_import_error_host:
  "detect_compute_environment late_import_error_host =
     ([Import ''tensorflow'', Query ''tf.config.list_physical_devices'', Import ''torch'',
       Query ''torch.cuda.is_available''], Inl (OtherError ''RuntimeError''))"
  by (simp add: probe_defs late_import_error_host_def cpu_host_def)






text \<open>
  Claim C7, as stated: torch is probed only when the tensorflow import fails, and a
  record is returned in every branch. On a host where \<^verbatim>\<open>import tensorflow\<close>
  succeeds and the device query inside the same \<^verbatim>\<open>try\<close> raises an
  \<^verbatim>\<open>ImportError\<close>, torch is imported although the tensorflow import did not
  fail; and when the torch query then raises a \<^verbatim>\<open>RuntimeError\<close>, no record is
  returned.
\<close>

theorem torch_probed_after_tensorflow_loaded:
  "import_outcome late_import_error_host ''tensorflow'' = None \<and>
   Import ''torch'' \<in> set (fst (detect_compute_environment late_import_error_host)) \<and>
   snd (detect_compute_environment late_import_error_host) = Inl (OtherError ''RuntimeError'')"
  by (simp add: detect_late_import_error_host) (simp add: late_import_error_host_def)

text \<open>
  Claim C7, amended: the probe starts with the import of tensorflow; torch is imported
  exactly when the tensorflow part (the import, or the device query that follows it in
  the same \<^verbatim>\<open>try\<close>) raises an \<^verbatim>\<open>ImportError\<close>; and whenever the function
  returns, the record has the five keys \<^verbatim>\<open>platform\<close>, \<^verbatim>\<open>architecture\<close>,
  \<^verbatim>\<open>python_version\<close>, \<^verbatim>\<open>gpu_available\<close>, \<^verbatim>\<open>gpu_type\<close>, in this order.
\<close>

theorem probe_order_and_record_shape:
  "(\<exists>rest. fst (detect_compute_environment w) = Import ''tensorflow'' # rest) \<and>
   (Import ''torch'' \<in> set (fst (detect_compute_environment w)) \<longleftrightarrow>
      (\<exists>e. isinstance_ImportError e \<and>
         (import_outcome w ''tensorflow'' = Some e \<or>
          import_outcome w ''tensorflow'' = None \<and> tf_list_physical_devices w = Inl e))) \<and>
   (\<forall>env. snd (detect_compute_environment w) = Inr env \<longrightarrow>
      dict_keys env =
        [''platform'', ''architecture'', ''python_version'', ''gpu_available'', ''gpu_type''])"
  by (cases "import_outcome w ''tensorflow''"; cases "tf_list_physical_devices w";
      cases "import_outcome w ''torch''"; cases "torch_cuda_is_available w")
     (simp_all add: probe_defs)

theorem probe_order_and_record_shape_witness:
  "snd (detect_compute_environment cuda_host) =
     Inr [(''platform'', PyStr ''Linux''), (''architecture'', PyStr ''x86_64''),
          (''python_version'', PyStr ''3.11.4''), (''gpu_available'', PyBool True),
          (''gpu_type'', PyStr ''CUDA'')] \<and>
   dict_keys [(''platform'', PyStr ''Linux''), (''architecture'', PyStr ''x86_64''),
          (''python_version'', PyStr ''3.11.4''), (''gpu_available'', PyBool True),
          (''gpu_type'', PyStr ''CUDA'')] =
     [''platform'', ''architecture'', ''python_version'', ''gpu_available'', ''gpu_type''] \<and>
   import_outcome cuda_host ''tensorflow'' = Some ModuleNotFoundError \<and>
   Import ''torch'' \<in> set (fst (detect_compute_environment cuda_host))"
proof -
  have returned: "snd (detect_compute_environment cuda_host) =
     Inr [(''platform'', PyStr ''Linux''), (''architecture'', PyStr ''x86_64''),
          (''python_version'', PyStr ''3.11.4''), (''gpu_available'', PyBool True),
          (''gpu_type'', PyStr ''CUDA'')]"
    by (simp add: detect_cuda_host)
  have tf: "import_outcome cuda_host ''tensorflow'' = Some ModuleNotFoundError"
    by (simp add: cuda_host_def cpu_host_def)
  have inst: "isinstance_ImportError ModuleNotFoundError"
    by simp
  from probe_order_and_record_shape [of cuda_host] tf inst
  have torch: "Import ''torch'' \<in> set (fst (detect_compute_environment cuda_host))"
    by blast
  from probe_order_and_record_shape [of cuda_host] returned
  have "dict_keys [(''platform'', PyStr ''Linux''), (''architecture'', PyStr ''x86_64''),
          (''python_version'', PyStr ''3.11.4''), (''gpu_available'', PyBool True),
          (''gpu_type'', PyStr ''CUDA'')] =
     [''platform'', ''architecture'', ''python_version'', ''gpu_available'', ''gpu_type'']"
    by blast
  with returned tf torch show ?thesis
    by blast
qed

text \<open>
  Claim C10: in every record that \<^verbatim>\<open>detect_compute_environment\<close> returns,
  \<^verbatim>\<open>gpu_available\<close> is \<^verbatim>\<open>True\<close> if and only if \<^verbatim>\<open>gpu_type\<close> is
  \<^verbatim>\<open>'CUDA'\<close>, and \<^verbatim>\<open>gpu_type\<close> is \<^verbatim>\<open>None\<close> if and only if
  \<^verbatim>\<open>gpu_available\<close> is \<^verbatim>\<open>False\<close>; the two fields hold one of these two
  pairs of values and no other.
\<close>

theorem gpu_fields_consistent:
  assumes "snd (detect_compute_environment w) = Inr env"
  shows "(dict_getitem env ''gpu_available'' = Inr (PyBool True) \<longleftrightarrow>
            dict_getitem env ''gpu_type'' = Inr (PyStr ''CUDA'')) \<and>
         (dict_getitem env ''gpu_type'' = Inr PyNone \<longleftrightarrow>
            dict_getitem env ''gpu_available'' = Inr (PyBool False)) \<and>
         (dict_getitem env ''gpu_available'' = Inr (PyBool True) \<or>
          dict_getitem env ''gpu_available'' = Inr (PyBool False))"
  using assms
  by (cases "import_outcome w ''tensorflow''"; cases "tf_list_physical_devices w";
      cases "import_outcome w ''torch''"; cases "torch_cuda_is_available w")
     (auto simp add: probe_defs split: if_splits)

theorem gpu_fields_consistent_witness:
  "snd (detect_compute_environment cuda_host) =
     Inr [(''platform'', PyStr ''Linux''), (''architecture'', PyStr ''x86_64''),
          (''python_version'', PyStr ''3.11.4''), (''gpu_available'', PyBool True),
          (''gpu_type'', PyStr ''CUDA'')] \<and>
   (dict_getitem [(''platform'', PyStr ''Linux''), (''architecture'', PyStr ''x86_64''),
          (''python_version'', PyStr ''3.11.4''), (''gpu_available'', PyBool True),
          (''gpu_type'', PyStr ''CUDA'')] ''gpu_available'' = Inr (PyBool True) \<longleftrightarrow>
    dict_getitem [(''platform'', PyStr ''Linux''), (''architecture'', PyStr ''x86_64''),
          (''python_version'', PyStr ''3.11.4''), (''gpu_available'', PyBool True),
          (''gpu_type'', PyStr ''CUDA'')] ''gpu_type'' = Inr (PyStr ''CUDA''))"
proof -
  have returned: "snd (detect_compute_environment cuda_host) =
     Inr [(''platform'', PyStr ''Linux''), (''architecture'', PyStr ''x86_64''),
          (''python_version'', PyStr ''3.11.4''), (''gpu_available'', PyBool True),
          (''gpu_type'', PyStr ''CUDA'')]"
    by (simp add: detect_cuda_host)
  from gpu_fields_consistent [OF returned] returned show ?thesis
    by blast
qed

section \<open>Runs that return\<close>

lemma fit_and_evaluate_Inr:
  "fit_and_evaluate w = (t, Inr l) \<longleftrightarrow>
     make_classification (sk w)
       \<lparr>n_samples = 1000, n_features = 10, n_informative = 5, n_redundant = 2, n_classes = 2\<rparr> 42
       = Inr (X l, y l) \<and>
     train_test_split (sk w) (X l) (y l) (1 / 5) 42 (Some (y l))
       = Inr (X_train l, X_test l, y_train l, y_test l) \<and>
     fit (sk w) \<lparr>n_estimators = 100, max_depth = 10\<rparr> 42 (X_train l) (y_train l) = Inr (model l) \<and>
     predict (sk w) (model l) (X_test l) = Inr (y_pred l) \<and>
     accuracy_score (sk w) (y_test l) (y_pred l) = Inr (accuracy l) \<and>
     t = [Print ''Generating sample dataset...'', Print ''Training model...'']"
  unfolding fit_and_evaluate_def check_random_state_def
  by (cases l) (auto simp: io_Inr_iff split: prod.splits)

lemma run_body_Inr:
  "run_body w env = (t, Inr a) \<longleftrightarrow>
     (\<exists>t1 l report. fit_and_evaluate w = (t1, Inr l) \<and> a = accuracy l \<and>
        classification_report (sk w) (y_test l) (y_pred l) = Inr report \<and>
        tracking w (LogParams env) = None \<and>
        tracking w (LogMetric ''accuracy'' (accuracy l)) = None \<and>
        tracking w (LogMetric ''train_samples'' (real (length (X_train l)))) = None \<and>
        tracking w (LogMetric ''test_samples'' (real (length (X_test l)))) = None \<and>
        tracking w (LogModel (model l) ''random_forest_model'' ''universal-ml-model'') = None \<and>
        t = Tracking (LogParams env) # t1 @
            [Tracking (LogMetric ''accuracy'' (accuracy l)),
             Tracking (LogMetric ''train_samples'' (real (length (X_train l)))),
             Tracking (LogMetric ''test_samples'' (real (length (X_test l)))),
             Tracking (LogModel (model l) ''random_forest_model'' ''universal-ml-model''),
             Print ''Model trained successfully!'',
             Print (''Accuracy: '' @ format_4f w (accuracy l)),
             Print ''Classification Report:'',
             Print report])"
  unfolding run_body_def
  by (auto simp: io_Inr_iff)

lemma with_start_run_Inr:
  "with_start_run w body = (t, Inr a) \<longleftrightarrow>
     (\<exists>tb. body = (tb, Inr a) \<and> tracking w StartRun = None \<and>
        tracking w (EndRun ''FINISHED'') = None \<and>
        t = Tracking StartRun # tb @ [Tracking (EndRun ''FINISHED'')])"
  unfolding with_start_run_def
  by (cases body; cases "snd body")
     (auto simp: io_Inr_iff call_tracking_def ret_def lift_def split: option.splits)

lemma train_model_from_Inr:
  "train_model_from w env = (t, Inr a) \<longleftrightarrow>
     (\<exists>p ar v g tb. dict_getitem env ''platform'' = Inr p \<and>
        dict_getitem env ''architecture'' = Inr ar \<and>
        dict_getitem env ''python_version'' = Inr v \<and>
        dict_getitem env ''gpu_available'' = Inr g \<and>
        tracking w (SetTrackingUri (os_getenv w ''MLFLOW_TRACKING_URI'' ''http://localhost:5000'')) = None \<and>
        tracking w (SetExperiment ''universal-ml-experiment'') = None \<and>
        with_start_run w (run_body w env) = (tb, Inr a) \<and>
        t = [Print (''Platform: '' @ py_str p @ '' '' @ py_str ar),
             Print (''Python: '' @ py_str v),
             Print (''GPU Available: '' @ py_str g),
             Tracking (SetTrackingUri (os_getenv w ''MLFLOW_TRACKING_URI'' ''http://localhost:5000'')),
             Tracking (SetExperiment ''universal-ml-experiment'')] @ tb)"
  unfolding train_model_from_def
  by (auto simp: io_Inr_iff)

text \<open>The functions that read a trace distribute over concatenation.\<close>

lemma logged_metric_append [simp]:
  "logged_metric k (t1 @ t2) = logged_metric k t1 @ logged_metric k t2"
  by (induction k t1 rule: logged_metric.induct) auto

lemma logged_params_append [simp]:
  "logged_params (t1 @ t2) = logged_params t1 @ logged_params t2"
  by (induction t1 rule: logged_params.induct) auto

lemma logged_models_append [simp]:
  "logged_models (t1 @ t2) = logged_models t1 @ logged_models t2"
  by (induction t1 rule: logged_models.induct) auto

lemma tracking_calls_append [simp]:
  "tracking_calls (t1 @ t2) = tracking_calls t1 @ tracking_calls t2"
  by (induction t1 rule: tracking_calls.induct) auto

lemma tracking_failures_append [simp]:
  "tracking_failures w (t1 @ t2) = tracking_failures w t1 @ tracking_failures w t2"
  by (induction w t1 rule: tracking_failures.induct) (auto split: option.splits)

lemma detect_no_tracking: "tracking_calls (fst (detect_compute_environment w)) = []"
  by (cases "import_outcome w ''tensorflow''"; cases "tf_list_physical_devices w";
      cases "import_outcome w ''torch''"; cases "torch_cuda_is_available w")
     (simp_all add: probe_defs)

lemma no_tracking_calls:
  assumes "tracking_calls t = []"
  shows "logged_metric k t = []" and "logged_params t = []" and "logged_models t = []"
    and "tracking_failures w t = []"
  using assms by (induction t rule: tracking_calls.induct) auto

text \<open>
  When \<^verbatim>\<open>train_model\<close> returns, lines 57 to 115 have made exactly these effects, in
  this order.
\<close>

lemma train_model_from_returns:
  assumes "train_model_from w env = (t, Inr a)"
  shows "\<exists>l report p ar v g.
     fit_and_evaluate w =
       ([Print ''Generating sample dataset...'', Print ''Training model...''], Inr l) \<and>
     a = accuracy l \<and>
     t = [Print (''Platform: '' @ py_str p @ '' '' @ py_str ar),
          Print (''Python: '' @ py_str v),
          Print (''GPU Available: '' @ py_str g),
          Tracking (SetTrackingUri
            (os_getenv w ''MLFLOW_TRACKING_URI'' ''http://localhost:5000'')),
          Tracking (SetExperiment ''universal-ml-experiment''),
          Tracking StartRun,
          Tracking (LogParams env),
          Print ''Generating sample dataset...'', Print ''Training model...'',
          Tracking (LogMetric ''accuracy'' (accuracy l)),
          Tracking (LogMetric ''train_samples'' (real (length (X_train l)))),
          Tracking (LogMetric ''test_samples'' (real (length (X_test l)))),
          Tracking (LogModel (model l) ''random_forest_model'' ''universal-ml-model''),
          Print ''Model trained successfully!'',
          Print (''Accuracy: '' @ format_4f w (accuracy l)),
          Print ''Classification Report:'',
          Print report,
          Tracking (EndRun ''FINISHED'')]"
proof -
  from assms obtain p ar v g tb where
    tb: "with_start_run w (run_body w env) = (tb, Inr a)" and
    t: "t = [Print (''Platform: '' @ py_str p @ '' '' @ py_str ar),
             Print (''Python: '' @ py_str v),
             Print (''GPU Available: '' @ py_str g),
             Tracking (SetTrackingUri
               (os_getenv w ''MLFLOW_TRACKING_URI'' ''http://localhost:5000'')),
             Tracking (SetExperiment ''universal-ml-experiment'')] @ tb"
    unfolding train_model_from_Inr by blast
  from tb obtain tr where r: "run_body w env = (tr, Inr a)"
    and tb': "tb = Tracking StartRun # tr @ [Tracking (EndRun ''FINISHED'')]"
    unfolding with_start_run_Inr by blast
  from r obtain te l report where fe: "fit_and_evaluate w = (te, Inr l)"
    and a: "a = accuracy l"
    and tr: "tr = Tracking (LogParams env) # te @
            [Tracking (LogMetric ''accuracy'' (accuracy l)),
             Tracking (LogMetric ''train_samples'' (real (length (X_train l)))),
             Tracking (LogMetric ''test_samples'' (real (length (X_test l)))),
             Tracking (LogModel (model l) ''random_forest_model'' ''universal-ml-model''),
             Print ''Model trained successfully!'',
             Print (''Accuracy: '' @ format_4f w (accuracy l)),
             Print ''Classification Report:'',
             Print report]"
    unfolding run_body_Inr by blast
  from fe have te: "te = [Print ''Generating sample dataset...'', Print ''Training model...'']"
    unfolding fit_and_evaluate_Inr by blast
  show ?thesis
    using fe a unfolding t tb' tr te by auto
qed

text \<open>What a run that returns has logged.\<close>

lemma detect_trace_silent:
  "logged_metric k (fst (detect_compute_environment w)) = []"
  "logged_params (fst (detect_compute_environment w)) = []"
  "logged_models (fst (detect_compute_environment w)) = []"
  "tracking_failures w' (fst (detect_compute_environment w)) = []"
  using detect_no_tracking [of w] by (simp_all add: no_tracking_calls)

lemma train_model_from_logs:
  assumes "train_model_from w env = (t, Inr a)"
  shows "\<exists>l. fit_and_evaluate w =
       ([Print ''Generating sample dataset...'', Print ''Training model...''], Inr l) \<and>
     a = accuracy l \<and>
     logged_params t = [env] \<and>
     logged_metric ''accuracy'' t = [accuracy l] \<and>
     logged_metric ''train_samples'' t = [real (length (X_train l))] \<and>
     logged_metric ''test_samples'' t = [real (length (X_test l))] \<and>
     logged_models t = [model l] \<and>
     tracking_calls t =
       [SetTrackingUri (os_getenv w ''MLFLOW_TRACKING_URI'' ''http://localhost:5000''),
        SetExperiment ''universal-ml-experiment'', StartRun, LogParams env,
        LogMetric ''accuracy'' (accuracy l),
        LogMetric ''train_samples'' (real (length (X_train l))),
        LogMetric ''test_samples'' (real (length (X_test l))),
        LogModel (model l) ''random_forest_model'' ''universal-ml-model'',
        EndRun ''FINISHED'']"
proof -
  from train_model_from_returns [OF assms] obtain l report p ar v g where
    fe: "fit_and_evaluate w =
       ([Print ''Generating sample dataset...'', Print ''Training model...''], Inr l)" and
    a: "a = accuracy l" and
    t: "t = [Print (''Platform: '' @ py_str p @ '' '' @ py_str ar),
          Print (''Python: '' @ py_str v),
          Print (''GPU Available: '' @ py_str g),
          Tracking (SetTrackingUri
            (os_getenv w ''MLFLOW_TRACKING_URI'' ''http://localhost:5000'')),
          Tracking (SetExperiment ''universal-ml-experiment''),
          Tracking StartRun,
          Tracking (LogParams env),
          Print ''Generating sample dataset...'', Print ''Training model...'',
          Tracking (LogMetric ''accuracy'' (accuracy l)),
          Tracking (LogMetric ''train_samples'' (real (length (X_train l)))),
          Tracking (LogMetric ''test_samples'' (real (length (X_test l)))),
          Tracking (LogModel (model l) ''random_forest_model'' ''universal-ml-model''),
          Print ''Model trained successfully!'',
          Print (''Accuracy: '' @ format_4f w (accuracy l)),
          Print ''Classification Report:'',
          Print report,
          Tracking (EndRun ''FINISHED'')]"
    by blast
  have "logged_params t = [env]" unfolding t by simp
  moreover have "logged_metric ''accuracy'' t = [accuracy l]" unfolding t by simp
  moreover have "logged_metric ''train_samples'' t = [real (length (X_train l))]"
    unfolding t by simp
  moreover have "logged_metric ''test_samples'' t = [real (length (X_test l))]"
    unfolding t by simp
  moreover have "logged_models t = [model l]" unfolding t by simp
  moreover have "tracking_calls t =
       [SetTrackingUri (os_getenv w ''MLFLOW_TRACKING_URI'' ''http://localhost:5000''),
        SetExperiment ''universal-ml-experiment'', StartRun, LogParams env,
        LogMetric ''accuracy'' (accuracy l),
        LogMetric ''train_samples'' (real (length (X_train l))),
        LogMetric ''test_samples'' (real (length (X_test l))),
        LogModel (model l) ''random_forest_model'' ''universal-ml-model'',
        EndRun ''FINISHED'']" unfolding t by simp
  ultimately show ?thesis using fe a by blast
qed

lemma train_model_logs:
  assumes "train_model w = (t, Inr a)"
  shows "\<exists>env l. snd (detect_compute_environment w) = Inr env \<and>
     fit_and_evaluate w =
       ([Print ''Generating sample dataset...'', Print ''Training model...''], Inr l) \<and>
     a = accuracy l \<and>
     logged_params t = [env] \<and>
     logged_metric ''accuracy'' t = [accuracy l] \<and>
     logged_metric ''train_samples'' t = [real (length (X_train l))] \<and>
     logged_metric ''test_samples'' t = [real (length (X_test l))] \<and>
     logged_models t = [model l] \<and>
     tracking_calls t =
       [SetTrackingUri (os_getenv w ''MLFLOW_TRACKING_URI'' ''http://localhost:5000''),
        SetExperiment ''universal-ml-experiment'', StartRun, LogParams env,
        LogMetric ''accuracy'' (accuracy l),
        LogMetric ''train_samples'' (real (length (X_train l))),
        LogMetric ''test_samples'' (real (length (X_test l))),
        LogModel (model l) ''random_forest_model'' ''universal-ml-model'',
        EndRun ''FINISHED'']"
proof -
  from assms obtain t0 env t1 where d: "detect_compute_environment w = (t0, Inr env)"
    and f: "train_model_from w env = (t1, Inr a)" and t: "t = t0 @ t1"
    unfolding train_model_def bind_Inr_iff by blast
  from d have silent: "logged_params t0 = []" "logged_models t0 = []"
    "tracking_calls t0 = []" "\<And>k. logged_metric k t0 = []"
    using detect_trace_silent [where w = w] detect_no_tracking [of w] by simp_all
  from d have "snd (detect_compute_environment w) = Inr env" by simp
  with train_model_from_logs [OF f] show ?thesis
    unfolding t by (simp add: silent)
qed

section \<open>Runs in the concrete worlds\<close>

lemma count_correct_replicate: "count_correct (replicate n a) (replicate n a) = n"
  by (simp add: count_correct_def)

lemma test_size_le:
  assumes "0 < r" and "r < 1"
  shows "nat \<lceil>r * real n\<rceil> \<le> n"
proof -
  have "r * real n \<le> real n"
    using assms by (simp add: mult_left_le_one_le)
  then show ?thesis by simp
qed

lemma constant_sklearn_contract: "sklearn_contract constant_sklearn"
proof -
  have "length ys = nat \<lceil>r * real (length ys)\<rceil>"
    if "length ys \<le> nat \<lceil>r * real (length ys)\<rceil>" and "0 < r" and "r < 1"
    for r and ys :: "'b list"
    using that test_size_le [of r "length ys"] by linarith
  then show ?thesis
    unfolding sklearn_contract_def constant_sklearn_def
    by (auto simp: Let_def min_def split: if_splits)
qed

lemma fit_and_evaluate_constant:
  assumes "sk w = constant_sklearn"
  shows "fit_and_evaluate w =
     ([Print ''Generating sample dataset...'', Print ''Training model...''],
      Inr \<lparr>X = replicate 1000 [], y = replicate 1000 0,
           X_train = replicate 800 [], X_test = replicate 200 [],
           y_train = replicate 800 0, y_test = replicate 200 0,
           model = 0, y_pred = replicate 200 0, accuracy = 1\<rparr>)"
  unfolding fit_and_evaluate_def
  by (simp add: assms constant_sklearn_def print_def lift_def ret_def Let_def
      count_correct_replicate)

lemma train_model_cpu_host:
  "train_model cpu_host =
     ([Import ''tensorflow'', Import ''torch'', Print ''No GPU ML libraries detected'',
       Print ''Platform: Linux x86_64'', Print ''Python: 3.11.4'',
       Print ''GPU Available: False'',
       Tracking (SetTrackingUri ''http://localhost:5000''),
       Tracking (SetExperiment ''universal-ml-experiment''),
       Tracking StartRun,
       Tracking (LogParams
         [(''platform'', PyStr ''Linux''), (''architecture'', PyStr ''x86_64''),
          (''python_version'', PyStr ''3.11.4''), (''gpu_available'', PyBool False),
          (''gpu_type'', PyNone)]),
       Print ''Generating sample dataset...'', Print ''Training model...'',
       Tracking (LogMetric ''accuracy'' 1),
       Tracking (LogMetric ''train_samples'' 800),
       Tracking (LogMetric ''test_samples'' 200),
       Tracking (LogModel 0 ''random_forest_model'' ''universal-ml-model''),
       Print ''Model trained successfully!'', Print ''Accuracy: 1.0000'',
       Print ''Classification Report:'', Print ''precision recall f1-score support'',
       Tracking (EndRun ''FINISHED'')],
      Inr 1)"
proof -
  have s: "sk cpu_host = constant_sklearn" by (simp add: cpu_host_def)
  show ?thesis
    unfolding train_model_def detect_cpu_host
    by (simp add: train_model_from_def with_start_run_def run_body_def
        fit_and_evaluate_constant [OF s] call_tracking_def print_def lift_def ret_def
        dict_getitem_def os_getenv_def)
      (simp add: cpu_host_def constant_sklearn_def)
qed

lemma detect_mac_host:
  "detect_compute_environment mac_host =
     ([Import ''tensorflow'', Import ''torch'', Print ''No GPU ML libraries detected''],
      Inr [(''platform'', PyStr ''Darwin''), (''architecture'', PyStr ''arm64''),
           (''python_version'', PyStr ''3.11.4''), (''gpu_available'', PyBool False),
           (''gpu_type'', PyNone)])"
  by (simp add: probe_defs mac_host_def cpu_host_def)

lemma train_model_mac_host:
  "train_model mac_host =
     ([Import ''tensorflow'', Import ''torch'', Print ''No GPU ML libraries detected'',
       Print ''Platform: Darwin arm64'', Print ''Python: 3.11.4'',
       Print ''GPU Available: False'',
       Tracking (SetTrackingUri ''http://localhost:5000''),
       Tracking (SetExperiment ''universal-ml-experiment''),
       Tracking StartRun,
       Tracking (LogParams
         [(''platform'', PyStr ''Darwin''), (''architecture'', PyStr ''arm64''),
          (''python_version'', PyStr ''3.11.4''), (''gpu_available'', PyBool False),
          (''gpu_type'', PyNone)]),
       Print ''Generating sample dataset...'', Print ''Training model...'',
       Tracking (LogMetric ''accuracy'' 1),
       Tracking (LogMetric ''train_samples'' 800),
       Tracking (LogMetric ''test_samples'' 200),
       Tracking (LogModel 0 ''random_forest_model'' ''universal-ml-model''),
       Print ''Model trained successfully!'', Print ''Accuracy: 1.0000'',
       Print ''Classification Report:'', Print ''precision recall f1-score support'',
       Tracking (EndRun ''FINISHED'')],
      Inr 1)"
proof -
  have s: "sk mac_host = constant_sklearn" by (simp add: mac_host_def cpu_host_def)
  show ?thesis
    unfolding train_model_def detect_mac_host
    by (simp add: train_model_from_def with_start_run_def run_body_def
        fit_and_evaluate_constant [OF s] call_tracking_def print_def lift_def ret_def
        dict_getitem_def os_getenv_def)
      (simp add: mac_host_def cpu_host_def constant_sklearn_def)
qed

lemma train_model_cuda_host:
  "train_model cuda_host =
     ([Import ''tensorflow'', Import ''torch'', Query ''torch.cuda.is_available'',
       Print ''PyTorch CUDA detected'',
       Print ''Platform: Linux x86_64'', Print ''Python: 3.11.4'',
       Print ''GPU Available: True'',
       Tracking (SetTrackingUri ''http://mlflow:5000''),
       Tracking (SetExperiment ''universal-ml-experiment''),
       Tracking StartRun,
       Tracking (LogParams
         [(''platform'', PyStr ''Linux''), (''architecture'', PyStr ''x86_64''),
          (''python_version'', PyStr ''3.11.4''), (''gpu_available'', PyBool True),
          (''gpu_type'', PyStr ''CUDA'')]),
       Print ''Generating sample dataset...'', Print ''Training model...'',
       Tracking (LogMetric ''accuracy'' 1),
       Tracking (LogMetric ''train_samples'' 800),
       Tracking (LogMetric ''test_samples'' 200),
       Tracking (LogModel 0 ''random_forest_model'' ''universal-ml-model''),
       Print ''Model trained successfully!'', Print ''Accuracy: 1.0000'',
       Print ''Classification Report:'', Print ''precision recall f1-score support'',
       Tracking (EndRun ''FINISHED'')],
      Inr 1)"
proof -
  have s: "sk cuda_host = constant_sklearn" by (simp add: cuda_host_def cpu_host_def)
  show ?thesis
    unfolding train_model_def detect_cuda_host
    by (simp add: train_model_from_def with_start_run_def run_body_def
        fit_and_evaluate_constant [OF s] call_tracking_def print_def lift_def ret_def
        dict_getitem_def os_getenv_def)
      (simp add: cuda_host_def cpu_host_def constant_sklearn_def)
qed

lemma detect_unreachable_tracking_host:
  "detect_compute_environment unreachable_tracking_host =
     ([Import ''tensorflow'', Import ''torch'', Print ''No GPU ML libraries detected''],
      Inr [(''platform'', PyStr ''Linux''), (''architecture'', PyStr ''x86_64''),
           (''python_version'', PyStr ''3.11.4''), (''gpu_available'', PyBool False),
           (''gpu_type'', PyNone)])"
  by (simp add: probe_defs unreachable_tracking_host_def cpu_host_def)

lemma train_model_unreachable_tracking_host:
  "train_model unreachable_tracking_host =
     ([Import ''tensorflow'', Import ''torch'', Print ''No GPU ML libraries detected'',
       Print ''Platform: Linux x86_64'', Print ''Python: 3.11.4'',
       Print ''GPU Available: False'',
       Tracking (SetTrackingUri ''http://localhost:5000'')],
      Inl (OtherError ''ConnectionError''))"
  unfolding train_model_def detect_unreachable_tracking_host
  by (simp add: train_model_from_def call_tracking_def print_def lift_def ret_def
      dict_getitem_def os_getenv_def)
    (simp add: unreachable_tracking_host_def cpu_host_def)

end
